theory Spec2Isabelle
  imports Complex_Main
begin

section \<open>The arbitrage monitor: one cycle of \<open>arbitrage_bot.py\<close>\<close>

text \<open>
  The program fetches two exchange rates, derives a third, fetches the best bid and ask
  of every configured coin on two venues, computes two spreads per coin, appends one
  row per spread (or one error row) to a spreadsheet tab and sends one chat message per
  spread that reaches the configured threshold.

  Conventions of the embedding.
  \<^item> A Python \<open>float\<close> that takes part in the price arithmetic is a \<open>real\<close>: the
    arithmetic is exact, rounding is not modelled. Division raises
    \<open>ZeroDivisionError\<close> on a zero divisor, as Python's does.
  \<^item> The value of \<open>float(s)\<close> for a settings string can also be an infinity or a
    NaN; \<open>pyfloat\<close> keeps those apart from the finite values.
  \<^item> A \<open>str\<close> is a \<open>string\<close> of ASCII characters.
  \<^item> An exception is a value of \<open>py_error\<close>; a function that can raise returns
    \<open>py_error + 'a\<close>, with \<open>Inl\<close> for the exception.
  \<^item> Everything the program reads from outside (the settings tab, the rate pages, the
    two tickers, the clock) is a field of \<open>world\<close>. What it writes (the log tab, the
    chat messages) is the \<open>state\<close>, passed in and returned.
  \<^item> The spreadsheet and the chat service are taken to accept every call: opening
    the workbook, reading a tab, appending rows and posting a message return normally.
\<close>

subsection \<open>Exceptions and numbers\<close>

datatype py_error =
    RuntimeError string
  | ValueError string
  | ZeroDivisionError
  | FetchError string

text \<open>
  \<open>RuntimeError m\<close> carries its message; \<open>ValueError s\<close> is raised by \<open>float(s)\<close> and
  carries \<open>s\<close>; \<open>FetchError m\<close> is any exception raised inside an HTTP request, the
  decoding of its JSON body, the lookup of a field or the conversion of a field to a
  float.
\<close>

datatype pyfloat = Fin real | PInf | NInf | NaN

text \<open>\<open>x >= t\<close> for a finite \<open>x\<close> and a float \<open>t\<close> read from the settings.\<close>

fun ge_float :: "real \<Rightarrow> pyfloat \<Rightarrow> bool" where
  "ge_float x (Fin t) = (t \<le> x)"
| "ge_float x PInf = False"
| "ge_float x NInf = True"
| "ge_float x NaN = False"

text \<open>\<open>a / b\<close> on floats.\<close>

definition py_div :: "real \<Rightarrow> real \<Rightarrow> py_error + real" where
  "py_div a b = (if b = 0 then Inl ZeroDivisionError else Inr (a / b))"

subsection \<open>Strings\<close>

definition is_space :: "char \<Rightarrow> bool" where
  "is_space c = (c \<in> set [CHR 0x09, CHR 0x0A, CHR 0x0B, CHR 0x0C, CHR 0x0D,
                            CHR 0x1C, CHR 0x1D, CHR 0x1E, CHR 0x1F, CHR 0x20])"

definition is_digit :: "char \<Rightarrow> bool" where
  "is_digit c = (c \<in> set ''0123456789'')"

text \<open>\<open>s.strip()\<close>\<close>

definition strip :: "string \<Rightarrow> string" where
  "strip s = rev (dropWhile is_space (rev (dropWhile is_space s)))"

definition upper_char :: "char \<Rightarrow> char" where
  "upper_char c =
     (case map_of (zip ''abcdefghijklmnopqrstuvwxyz'' ''ABCDEFGHIJKLMNOPQRSTUVWXYZ'') c of
        Some u \<Rightarrow> u
      | None \<Rightarrow> c)"

definition lower_char :: "char \<Rightarrow> char" where
  "lower_char c =
     (case map_of (zip ''ABCDEFGHIJKLMNOPQRSTUVWXYZ'' ''abcdefghijklmnopqrstuvwxyz'') c of
        Some u \<Rightarrow> u
      | None \<Rightarrow> c)"

text \<open>\<open>s.upper()\<close>\<close>

definition upper :: "string \<Rightarrow> string" where
  "upper s = map upper_char s"

text \<open>\<open>s.split(sep)\<close> for a separator of one character: never an empty list.\<close>

fun split_on :: "char \<Rightarrow> string \<Rightarrow> string list" where
  "split_on sep [] = [[]]"
| "split_on sep (c # cs) =
     (if c = sep then [] # split_on sep cs
      else (case split_on sep cs of
              [] \<Rightarrow> [[c]]
            | p # ps \<Rightarrow> (c # p) # ps))"

subsection \<open>\<open>float(s)\<close>\<close>

text \<open>
  CPython removes the underscores that stand between two digits (and rejects any
  other underscore), strips white space, and accepts an optional sign followed by
  \<open>inf\<close>, \<open>infinity\<close> or \<open>nan\<close> in any case, or by a decimal numeral
  \<open>digits [. digits] | . digits\<close> with an optional exponent. Anything else raises
  \<open>ValueError\<close>.
\<close>

definition digit_val :: "char \<Rightarrow> nat" where
  "digit_val c =
     (case map_of (zip ''0123456789'' [0, 1, 2, 3, 4, 5, 6, 7, 8, 9]) c of
        Some d \<Rightarrow> d
      | None \<Rightarrow> 0)"

definition digits_val :: "string \<Rightarrow> nat" where
  "digits_val ds = foldl (\<lambda>n c. 10 * n + digit_val c) 0 ds"

fun drop_underscores :: "char \<Rightarrow> string \<Rightarrow> string option" where
  "drop_underscores prev [] = (if prev = CHR ''_'' then None else Some [])"
| "drop_underscores prev (c # cs) =
     (if c = CHR ''_'' then (if is_digit prev then drop_underscores c cs else None)
      else if prev = CHR ''_'' \<and> \<not> is_digit c then None
      else map_option (\<lambda>r. c # r) (drop_underscores c cs))"

definition take_sign :: "string \<Rightarrow> bool \<times> string" where
  "take_sign s =
     (case s of
        [] \<Rightarrow> (False, [])
      | c # cs \<Rightarrow> if c = CHR ''-'' then (True, cs)
                 else if c = CHR ''+'' then (False, cs)
                 else (False, s))"

definition parse_number :: "string \<Rightarrow> real option" where
  "parse_number s =
     (let ip = takeWhile is_digit s; r1 = dropWhile is_digit s;
          (fp, r2) = (case r1 of
                        [] \<Rightarrow> ([], [])
                      | c # cs \<Rightarrow> if c = CHR ''.''
                                 then (takeWhile is_digit cs, dropWhile is_digit cs)
                                 else ([], r1))
      in if ip = [] \<and> fp = [] then None
         else (let m = real (digits_val (ip @ fp)) / 10 ^ length fp
               in case r2 of
                    [] \<Rightarrow> Some m
                  | c # cs \<Rightarrow>
                      if c = CHR ''e'' \<or> c = CHR ''E''
                      then (let (neg, ds) = take_sign cs
                            in if ds \<noteq> [] \<and> list_all is_digit ds
                               then Some (if neg then m / 10 ^ digits_val ds
                                          else m * 10 ^ digits_val ds)
                               else None)
                      else None))"

definition py_float :: "string \<Rightarrow> py_error + pyfloat" where
  "py_float s =
     (case drop_underscores (CHR 0x00) s of
        None \<Rightarrow> Inl (ValueError s)
      | Some u \<Rightarrow>
          (let t = strip u; (neg, body) = take_sign t; low = map lower_char body
           in if t = [] then Inl (ValueError s)
              else if low = ''inf'' \<or> low = ''infinity''
                then Inr (if neg then NInf else PInf)
              else if low = ''nan'' then Inr NaN
              else (case parse_number body of
                      None \<Rightarrow> Inl (ValueError s)
                    | Some v \<Rightarrow> Inr (Fin (if neg then - v else v)))))"

subsection \<open>The outside world and the state\<close>

text \<open>
  A cell of the log tab: a string, a float, or the text \<open>str(e)\<close> of a caught
  exception \<open>e\<close>.
\<close>

datatype cell = S string | F real | StrOf py_error

type_synonym row = "cell list"

text \<open>An alert: \<open>(coin, side, spr, luno_usd, ku_price)\<close>.\<close>

type_synonym alert = "string \<times> string \<times> real \<times> real \<times> real"

text \<open>
  \<open>setting_ws\<close> is what \<open>get_all_values()\<close> returns for the settings tab;
  \<open>xe_text from to\<close> is the outcome of the GET of the rate page for a pair (the page
  text, or the exception of the request); \<open>kucoin_ticker coin\<close> and \<open>luno_ticker coin\<close>
  are the outcomes of the ticker requests, through the JSON decoding and the two
  \<open>float\<close> conversions, as \<open>(bid, ask)\<close>; \<open>now\<close> is the formatted local time. Within
  one cycle the same request has the same outcome.
\<close>

record world =
  setting_ws :: "string list list"
  xe_text :: "string \<Rightarrow> string \<Rightarrow> py_error + string"
  kucoin_ticker :: "string \<Rightarrow> py_error + real \<times> real"
  luno_ticker :: "string \<Rightarrow> py_error + real \<times> real"
  now :: string

text \<open>
  A chat message: the destination and the values that \<open>main\<close> formats into the
  fixed text of the alert.
\<close>

record tg_message =
  tg_token :: string
  tg_chat_id :: string
  msg_coin :: string
  msg_side :: string
  msg_spr :: real
  msg_luno_usd :: real
  msg_ku_price :: real
  msg_usd_thb :: real
  msg_myr_thb :: real
  msg_usd_myr :: real
  msg_ts :: string

text \<open>
  \<open>log_ws\<close> is the content of the log tab, as \<open>get_all_values()\<close> returns it and as
  \<open>append_row\<close> and \<open>append_rows\<close> extend it: a row is kept as the list of cells
  that \<open>main\<close> passes, whatever the spreadsheet makes of a cell entered as by a user.
  \<open>telegram\<close> is the list of messages posted so far.
\<close>

record state =
  log_ws :: "row list"
  telegram :: "tg_message list"

subsection \<open>\<open>get_xe_rate\<close>\<close>

text \<open>A literal at the start of the text: the rest after it.\<close>

definition match_literal :: "string \<Rightarrow> string \<Rightarrow> string option" where
  "match_literal lit s =
     (if take (length lit) s = lit then Some (drop (length lit) s) else None)"

text \<open>
  \<open>(\d+\.\d+)\<close> at the start of the text: the group and the rest. Both \<open>\d+\<close> are
  greedy, and giving a digit back never helps, since the character that must follow
  is not a digit.
\<close>

definition match_decimal :: "string \<Rightarrow> (string \<times> string) option" where
  "match_decimal s =
     (let d1 = takeWhile is_digit s; r1 = dropWhile is_digit s
      in if d1 = [] then None
         else (case r1 of
                 [] \<Rightarrow> None
               | c # r2 \<Rightarrow>
                   if c \<noteq> CHR ''.'' then None
                   else (let d2 = takeWhile is_digit r2
                         in if d2 = [] then None
                            else Some (d1 @ CHR ''.'' # d2, dropWhile is_digit r2))))"

text \<open>Pattern 1 at the start of the text: \<open>"TO"\s*:\s*(\d+\.\d+)\<close>.\<close>

definition pattern1 :: "string \<Rightarrow> string \<Rightarrow> string option" where
  "pattern1 to_curr s =
     (case match_literal (CHR 0x22 # to_curr @ [CHR 0x22]) s of
        None \<Rightarrow> None
      | Some r \<Rightarrow>
          (case dropWhile is_space r of
             [] \<Rightarrow> None
           | c # r' \<Rightarrow>
               if c = CHR '':''
               then map_option fst (match_decimal (dropWhile is_space r'))
               else None))"

text \<open>Pattern 2 at the start of the text: \<open>(\d+\.\d+)<span class="faded-digits">\<close>.\<close>

definition pattern2 :: "string \<Rightarrow> string option" where
  "pattern2 s =
     (case match_decimal s of
        None \<Rightarrow> None
      | Some (g, r) \<Rightarrow>
          (case match_literal (''<span class='' @ [CHR 0x22] @ ''faded-digits''
                                 @ [CHR 0x22] @ ''>'') r of
             None \<Rightarrow> None
           | Some _ \<Rightarrow> Some g))"

text \<open>\<open>re.search\<close>: the match at the leftmost position that has one; group 1.\<close>

fun re_search :: "(string \<Rightarrow> string option) \<Rightarrow> string \<Rightarrow> string option" where
  "re_search p [] = p []"
| "re_search p (c # cs) =
     (case p (c # cs) of
        Some g \<Rightarrow> Some g
      | None \<Rightarrow> re_search p cs)"

text \<open>
  The last branch is for the type only: \<open>float\<close> of a group \<open>\d+\.\d+\<close> is finite
  (\<open>py_float_group\<close> below).
\<close>

definition get_xe_rate :: "world \<Rightarrow> string \<Rightarrow> string \<Rightarrow> py_error + real" where
  "get_xe_rate w from_curr to_curr =
     (case xe_text w from_curr to_curr of
        Inl e \<Rightarrow> Inl e
      | Inr text \<Rightarrow>
          (let m = re_search (pattern1 to_curr) text;
               m = (if m = None then re_search pattern2 text else m)
           in case m of
                None \<Rightarrow>
                  Inl (RuntimeError (''XE parse failed for '' @ from_curr @ ''->'' @ to_curr))
              | Some g \<Rightarrow>
                  (case py_float g of
                     Inl e \<Rightarrow> Inl e
                   | Inr (Fin v) \<Rightarrow> Inr v
                   | Inr _ \<Rightarrow> Inl (ValueError g))))"

subsection \<open>The two tickers\<close>

definition kucoin_prices :: "world \<Rightarrow> string \<Rightarrow> py_error + real \<times> real" where
  "kucoin_prices w coin = kucoin_ticker w coin"

definition luno_prices_myr :: "world \<Rightarrow> string \<Rightarrow> py_error + real \<times> real" where
  "luno_prices_myr w coin = luno_ticker w coin"

subsection \<open>\<open>send_telegram\<close>\<close>

definition send_telegram :: "tg_message \<Rightarrow> state \<Rightarrow> state" where
  "send_telegram msg st = st\<lparr>telegram := telegram st @ [msg]\<rparr>"

subsection \<open>\<open>load_settings\<close>\<close>

definition put_row :: "(string \<rightharpoonup> string) \<Rightarrow> string list \<Rightarrow> (string \<rightharpoonup> string)" where
  "put_row m r =
     (case r of
        k # v # _ \<Rightarrow> if strip k \<noteq> [] then m(strip k \<mapsto> strip v) else m
      | _ \<Rightarrow> m)"

definition settings_dict :: "string list list \<Rightarrow> (string \<rightharpoonup> string)" where
  "settings_dict values = foldl put_row Map.empty values"

text \<open>\<open>m.get(k, d)\<close>\<close>

definition dict_get :: "(string \<rightharpoonup> string) \<Rightarrow> string \<Rightarrow> string \<Rightarrow> string" where
  "dict_get m k d = (case m k of Some v \<Rightarrow> v | None \<Rightarrow> d)"

definition parse_coins :: "string \<Rightarrow> string list" where
  "parse_coins s = map (\<lambda>c. upper (strip c)) (filter (\<lambda>c. strip c \<noteq> []) (split_on CHR '','' s))"

definition load_settings ::
  "string list list \<Rightarrow> py_error + (pyfloat \<times> pyfloat \<times> string list \<times> string \<times> string)" where
  "load_settings values =
     (let m = settings_dict values
      in case py_float (dict_get m ''ALERT_BPS'' ''200'') of
           Inl e \<Rightarrow> Inl e
         | Inr alert_bps \<Rightarrow>
             (case py_float (dict_get m ''COOLDOWN_MIN'' ''10'') of
                Inl e \<Rightarrow> Inl e
              | Inr cooldown_min \<Rightarrow>
                  Inr (alert_bps, cooldown_min,
                       parse_coins (dict_get m ''COINS'' ''BTC,ETH''),
                       dict_get m ''TELEGRAM_BOT_TOKEN'' '''',
                       dict_get m ''TELEGRAM_CHAT_ID'' '''')))"

subsection \<open>\<open>ensure_headers\<close>\<close>

definition header_row :: row where
  "header_row =
     [S ''Timestamp'', S ''Side'', S ''Coin'',
      S ''Luno(MYR)'', S ''KuCoin(USDT)'',
      S ''USD/MYR'', S ''USD/THB'', S ''MYR/THB'',
      S ''Luno(USD)'', S ''Spread(bps)'', S ''Error'']"

text \<open>The first \<open>if\<close> of the source does nothing; the second appends the header.\<close>

definition ensure_headers :: "row list \<Rightarrow> row list" where
  "ensure_headers values =
     (if length values = 0 then values @ [header_row] else values)"

subsection \<open>\<open>main\<close>\<close>

text \<open>The spread of lines 113 and 120: \<open>10000 * ((x - y) / ((x + y) / 2))\<close>.\<close>

definition spread_bps :: "real \<Rightarrow> real \<Rightarrow> py_error + real" where
  "spread_bps x y =
     (case py_div (x - y) ((x + y) / 2) of
        Inl e \<Rightarrow> Inl e
      | Inr q \<Rightarrow> Inr (10000 * q))"

text \<open>Lines 96 to 99: the two rates and the derived one, \<open>(usd_myr, usd_thb, myr_thb)\<close>.\<close>

definition fx_rates :: "world \<Rightarrow> py_error + real \<times> real \<times> real" where
  "fx_rates w =
     (case get_xe_rate w ''USD'' ''THB'' of
        Inl e \<Rightarrow> Inl e
      | Inr usd_thb \<Rightarrow>
          (case get_xe_rate w ''MYR'' ''THB'' of
             Inl e \<Rightarrow> Inl e
           | Inr myr_thb \<Rightarrow>
               (case py_div usd_thb myr_thb of
                  Inl e \<Rightarrow> Inl e
                | Inr usd_myr \<Rightarrow> Inr (usd_myr, usd_thb, myr_thb))))"

definition data_row ::
  "string \<Rightarrow> string \<Rightarrow> string \<Rightarrow> real \<Rightarrow> real \<Rightarrow> real \<times> real \<times> real \<Rightarrow> real \<Rightarrow> real \<Rightarrow> row" where
  "data_row ts side coin lu_price ku_price fx luno_usd spr =
     (case fx of (usd_myr, usd_thb, myr_thb) \<Rightarrow>
        [S ts, S side, S coin, F lu_price, F ku_price,
         F usd_myr, F usd_thb, F myr_thb, F luno_usd, F spr, S ''''])"

definition err_row :: "string \<Rightarrow> string \<Rightarrow> real \<times> real \<times> real \<Rightarrow> py_error \<Rightarrow> row" where
  "err_row ts coin fx e =
     (case fx of (usd_myr, usd_thb, myr_thb) \<Rightarrow>
        [S ts, S ''ERR'', S coin, S '''', S '''',
         F usd_myr, F usd_thb, F myr_thb, S '''', S '''', StrOf e])"

text \<open>
  The body of the \<open>try\<close> (lines 108 to 123) for one coin. It returns the two lists as
  they stand when the body ends, normally or by an exception: the row of the bid side
  is appended before the ask side is computed.
\<close>

definition try_coin ::
  "world \<Rightarrow> string \<Rightarrow> pyfloat \<Rightarrow> real \<times> real \<times> real \<Rightarrow> string \<Rightarrow>
   row list \<times> alert list \<Rightarrow> (row list \<times> alert list) \<times> (py_error + unit)" where
  "try_coin w ts alert_bps fx coin acc =
     (case acc of (rows, alerts) \<Rightarrow>
      (case kucoin_prices w coin of
         Inl e \<Rightarrow> ((rows, alerts), Inl e)
       | Inr (ku_bid, ku_ask) \<Rightarrow>
      (case luno_prices_myr w coin of
         Inl e \<Rightarrow> ((rows, alerts), Inl e)
       | Inr (lu_bid, lu_ask) \<Rightarrow>
      (case py_div lu_bid (fst fx) of
         Inl e \<Rightarrow> ((rows, alerts), Inl e)
       | Inr luno_usd \<Rightarrow>
      (case spread_bps luno_usd ku_ask of
         Inl e \<Rightarrow> ((rows, alerts), Inl e)
       | Inr spr \<Rightarrow>
      (let rows1 = rows @ [data_row ts ''Bid'' coin lu_bid ku_ask fx luno_usd spr];
           alerts1 = (if ge_float spr alert_bps
                      then alerts @ [(coin, ''Bid'', spr, luno_usd, ku_ask)]
                      else alerts)
       in
      (case py_div lu_ask (fst fx) of
         Inl e \<Rightarrow> ((rows1, alerts1), Inl e)
       | Inr luno_usd2 \<Rightarrow>
      (case spread_bps luno_usd2 ku_bid of
         Inl e \<Rightarrow> ((rows1, alerts1), Inl e)
       | Inr spr2 \<Rightarrow>
      (let rows2 = rows1 @ [data_row ts ''Ask'' coin lu_ask ku_bid fx luno_usd2 spr2];
           alerts2 = (if ge_float spr2 alert_bps
                      then alerts1 @ [(coin, ''Ask'', spr2, luno_usd2, ku_bid)]
                      else alerts1)
       in ((rows2, alerts2), Inr ()))))))))))"

text \<open>One pass of the loop (lines 107 to 126): the \<open>try\<close> and its \<open>except\<close>.\<close>

definition coin_step ::
  "world \<Rightarrow> string \<Rightarrow> pyfloat \<Rightarrow> real \<times> real \<times> real \<Rightarrow>
   row list \<times> alert list \<Rightarrow> string \<Rightarrow> row list \<times> alert list" where
  "coin_step w ts alert_bps fx acc coin =
     (case try_coin w ts alert_bps fx coin acc of
        ((rows, alerts), Inl e) \<Rightarrow> (rows @ [err_row ts coin fx e], alerts)
      | ((rows, alerts), Inr _) \<Rightarrow> (rows, alerts))"

text \<open>The loop over the coins (lines 103 to 126), from empty lists.\<close>

definition for_coins ::
  "world \<Rightarrow> string \<Rightarrow> pyfloat \<Rightarrow> real \<times> real \<times> real \<Rightarrow> string list \<Rightarrow>
   row list \<times> alert list" where
  "for_coins w ts alert_bps fx coins = foldl (coin_step w ts alert_bps fx) ([], []) coins"

text \<open>Lines 132 to 146: one message per alert when both settings are non-empty.\<close>

definition alert_message ::
  "string \<Rightarrow> string \<Rightarrow> string \<Rightarrow> real \<times> real \<times> real \<Rightarrow> alert \<Rightarrow> tg_message" where
  "alert_message token chat_id ts fx a =
     (case (fx, a) of ((usd_myr, usd_thb, myr_thb), (coin, side, spr, luno_usd, ku_price)) \<Rightarrow>
        \<lparr>tg_token = token, tg_chat_id = chat_id, msg_coin = coin, msg_side = side,
         msg_spr = spr, msg_luno_usd = luno_usd, msg_ku_price = ku_price,
         msg_usd_thb = usd_thb, msg_myr_thb = myr_thb, msg_usd_myr = usd_myr,
         msg_ts = ts\<rparr>)"

definition notify ::
  "string \<Rightarrow> string \<Rightarrow> string \<Rightarrow> real \<times> real \<times> real \<Rightarrow> alert list \<Rightarrow> state \<Rightarrow> state" where
  "notify token chat_id ts fx alerts st =
     (if token \<noteq> [] \<and> chat_id \<noteq> []
      then foldl (\<lambda>s a. send_telegram (alert_message token chat_id ts fx a) s) st alerts
      else st)"

text \<open>
  One run of \<open>main\<close>, from the two worksheets on. The state it returns holds what was
  written before \<open>main\<close> returned or an exception left it.
\<close>

definition main :: "world \<Rightarrow> state \<Rightarrow> state \<times> (py_error + unit)" where
  "main w st =
     (let st1 = st\<lparr>log_ws := ensure_headers (log_ws st)\<rparr>
      in case load_settings (setting_ws w) of
           Inl e \<Rightarrow> (st1, Inl e)
         | Inr (alert_bps, cooldown_min, coins, token, chat_id) \<Rightarrow>
             (case fx_rates w of
                Inl e \<Rightarrow> (st1, Inl e)
              | Inr fx \<Rightarrow>
                  (let ts = now w;
                       (rows, alerts) = for_coins w ts alert_bps fx coins;
                       st2 = st1\<lparr>log_ws := log_ws st1 @ rows\<rparr>
                   in (notify token chat_id ts fx alerts st2, Inr ()))))"

text \<open>The program is started once per cycle; the log tab and the chat persist.\<close>

definition run_cycles :: "world list \<Rightarrow> state \<Rightarrow> state" where
  "run_cycles ws st = foldl (\<lambda>s w. fst (main w s)) st ws"

subsection \<open>Notions used in the statements\<close>

text \<open>
  The alert decision as the specification words it. The alert that a row of the log
  stands for: a row of eleven cells with a side, a coin, two prices, the three rates,
  a normalised price and a spread gives one alert when the spread reaches the
  threshold; any other row (an error row, the header) gives none.
\<close>

definition row_alert :: "pyfloat \<Rightarrow> row \<Rightarrow> alert list" where
  "row_alert thr r =
     (case r of
        [S ts, S side, S coin, F lu_price, F ku_price, F usd_myr, F usd_thb,
         F myr_thb, F luno_usd, F spr, S err] \<Rightarrow>
          (if ge_float spr thr then [(coin, side, spr, luno_usd, ku_price)] else [])
      | _ \<Rightarrow> [])"

text \<open>A row whose second cell, the side, is \<open>ERR\<close>.\<close>

definition is_err_row :: "row \<Rightarrow> bool" where
  "is_err_row r = (case r of t # S side # rest \<Rightarrow> side = ''ERR'' | _ \<Rightarrow> False)"

text \<open>What \<open>load_settings\<close> returns, apart from the cool-down.\<close>

definition without_cooldown ::
  "py_error + (pyfloat \<times> pyfloat \<times> string list \<times> string \<times> string) \<Rightarrow>
   py_error + (pyfloat \<times> string list \<times> string \<times> string)" where
  "without_cooldown r =
     (case r of
        Inl e \<Rightarrow> Inl e
      | Inr (alert_bps, cooldown_min, rest) \<Rightarrow> Inr (alert_bps, rest))"

subsection \<open>Sample worlds\<close>

text \<open>
  The first rate page matches pattern 1 and the second pattern 2; the rates are 36 and
  9, so that one dollar is four ringgit. Three coins are configured: the two tickers
  answer for BTC and LTC, and the first ticker fails for XRP.
\<close>

definition demo_world :: world where
  "demo_world =
     \<lparr>setting_ws = [[''ALERT_BPS'', ''200''], [''COINS'', ''btc, ltc,xrp''],
                    [''TELEGRAM_BOT_TOKEN'', ''T''], [''TELEGRAM_CHAT_ID'', ''42'']],
      xe_text = (\<lambda>from_curr to_curr.
         if from_curr = ''USD''
         then Inr (''{'' @ [CHR 0x22] @ ''THB'' @ [CHR 0x22] @ '': 36.00}'')
         else Inr (''<p>9.00<span class='' @ [CHR 0x22] @ ''faded-digits'' @ [CHR 0x22]
                   @ ''>12</span>'')),
      kucoin_ticker = (\<lambda>coin.
         if coin = ''BTC'' then Inr (98, 99)
         else if coin = ''LTC'' then Inr (100, 101)
         else Inl (FetchError ''timeout'')),
      luno_ticker = (\<lambda>coin. if coin = ''BTC'' then Inr (404, 408) else Inr (396, 400)),
      now = ''2024-01-01 00:00:00''\<rparr>"

text \<open>
  The sample world with the rate pages of the specification's example: 34.50 baht to
  the dollar and 8.20 baht to the ringgit.
\<close>

definition rates_world :: world where
  "rates_world =
     demo_world\<lparr>xe_text := (\<lambda>from_curr to_curr.
        if from_curr = ''USD''
        then Inr ([CHR 0x22] @ ''THB'' @ [CHR 0x22] @ '': 34.50'')
        else Inr ([CHR 0x22] @ ''THB'' @ [CHR 0x22] @ '':8.20,''))\<rparr>"

text \<open>The sample world with rate pages that match neither pattern.\<close>

definition no_rate_world :: world where
  "no_rate_world = demo_world\<lparr>xe_text := (\<lambda>from_curr to_curr. Inr ''<html>busy</html>'')\<rparr>"

text \<open>The sample world without a bot token in its settings.\<close>

definition no_token_world :: world where
  "no_token_world =
     demo_world\<lparr>setting_ws := [[''ALERT_BPS'', ''200''], [''COINS'', ''btc, ltc,xrp''],
                                 [''TELEGRAM_CHAT_ID'', ''42'']]\<rparr>"

text \<open>The settings tab of the sample world with a \<open>COOLDOWN_MIN\<close> row added.\<close>

definition cooldown_sheet :: "string \<Rightarrow> string list list" where
  "cooldown_sheet v = setting_ws demo_world @ [[''COOLDOWN_MIN'', v]]"

text \<open>The state of a new workbook: an empty log tab and no message sent.\<close>

definition empty_state :: state where
  "empty_state = \<lparr>log_ws = [], telegram = []\<rparr>"

section \<open>Properties\<close>

subsection \<open>The group of a rate pattern is a finite float\<close>

lemma special_not_digit:
  "\<not> is_digit (CHR ''_'')" "\<not> is_digit (CHR ''-'')" "\<not> is_digit (CHR ''+'')"
  "\<not> is_digit (CHR ''.'')" "\<not> is_digit (CHR ''i'')" "\<not> is_digit (CHR ''n'')"
  by (simp_all add: is_digit_def)

lemma digit_not_space: "is_digit c \<Longrightarrow> \<not> is_space c"
  unfolding is_digit_def is_space_def by (elim disjE | simp)+

lemma digit_lower: "is_digit c \<Longrightarrow> lower_char c = c"
  by (simp add: is_digit_def, elim disjE; simp add: lower_char_def)

lemma digit_not_special:
  assumes "is_digit c"
  shows "\<not> is_space c \<and> c \<noteq> CHR ''_'' \<and> c \<noteq> CHR ''-'' \<and> c \<noteq> CHR ''+''
     \<and> c \<noteq> CHR ''.'' \<and> lower_char c = c \<and> c \<noteq> CHR ''i'' \<and> c \<noteq> CHR ''n''"
  using assms special_not_digit digit_not_space [OF assms] digit_lower [OF assms]
  by blast

lemma drop_underscores_none:
  "CHR ''_'' \<notin> set s \<Longrightarrow> prev \<noteq> CHR ''_'' \<Longrightarrow> drop_underscores prev s = Some s"
  by (induction s arbitrary: prev) auto

lemma strip_id:
  assumes "s \<noteq> []" and "\<not> is_space (hd s)" and "\<not> is_space (last s)"
  shows "strip s = s"
proof -
  have a: "dropWhile is_space s = s"
    using assms by (cases s) auto
  have "dropWhile is_space (rev s) = rev s"
    using assms by (cases "rev s") (auto simp: last_rev [symmetric] hd_rev)
  then show ?thesis
    by (simp add: strip_def a)
qed

lemma py_float_of_decimal:
  assumes "d1 \<noteq> []" and "d2 \<noteq> []"
    and d1: "\<forall>c\<in>set d1. is_digit c" and d2: "\<forall>c\<in>set d2. is_digit c"
  shows "py_float (d1 @ CHR ''.'' # d2) = Inr (Fin (real (digits_val (d1 @ d2)) / 10 ^ length d2))"
proof -
  let ?g = "d1 @ CHR ''.'' # d2"
  obtain c cs where c: "d1 = c # cs"
    using assms(1) by (cases d1) auto
  have dc: "is_digit c"
    using d1 c by simp
  have no_us: "CHR ''_'' \<notin> set ?g"
    using d1 d2 digit_not_special by auto
  have du: "drop_underscores (CHR 0x00) ?g = Some ?g"
    by (rule drop_underscores_none [OF no_us]) simp
  have "is_digit (last ?g)"
    using d2 assms(2) by simp
  then have st: "strip ?g = ?g"
    using dc digit_not_special by (intro strip_id) (auto simp: c)
  have ts: "take_sign ?g = (False, ?g)"
    using dc digit_not_special by (auto simp: take_sign_def c)
  have h: "hd (map lower_char ?g) = c"
    using dc digit_not_special by (simp add: c)
  have low: "map lower_char ?g \<noteq> x" if "hd x = CHR ''i'' \<or> hd x = CHR ''n''" for x
  proof
    assume "map lower_char ?g = x"
    with h have "hd x = c"
      by simp
    with that dc digit_not_special show False
      by blast
  qed
  have tw: "takeWhile is_digit ?g = d1" "dropWhile is_digit ?g = CHR ''.'' # d2"
    using d1 by (simp_all add: takeWhile_append2 dropWhile_append2 is_digit_def)
  have tw2: "takeWhile is_digit d2 = d2" "dropWhile is_digit d2 = []"
    using d2 by simp_all
  have pn: "parse_number ?g = Some (real (digits_val (d1 @ d2)) / 10 ^ length d2)"
    unfolding parse_number_def tw by (simp add: tw2 assms(1))
  show ?thesis
    unfolding py_float_def du by (simp add: st ts low pn Let_def del: map_append)
qed

lemma match_decimal_shape:
  assumes "match_decimal s = Some (g, r)"
  shows "\<exists>d1 d2. g = d1 @ CHR ''.'' # d2 \<and> d1 \<noteq> [] \<and> d2 \<noteq> []
           \<and> (\<forall>c\<in>set d1. is_digit c) \<and> (\<forall>c\<in>set d2. is_digit c)"
  using assms
  by (auto simp: match_decimal_def Let_def split: if_splits list.splits
           dest: set_takeWhileD)

lemma re_search_suffix:
  "re_search p s = Some g \<Longrightarrow> \<exists>t. p t = Some g"
  by (induction s) (auto split: option.splits)

lemma pattern_group:
  "pattern1 to_curr s = Some g \<Longrightarrow> \<exists>t r. match_decimal t = Some (g, r)"
  "pattern2 s = Some g \<Longrightarrow> \<exists>t r. match_decimal t = Some (g, r)"
  by (auto simp: pattern1_def pattern2_def split: option.splits list.splits if_splits prod.splits)

lemma py_float_group:
  assumes "re_search (pattern1 to_curr) page = Some g \<or> re_search pattern2 page = Some g"
  shows "\<exists>v. py_float g = Inr (Fin v)"
proof -
  from assms have "(\<exists>t. pattern1 to_curr t = Some g) \<or> (\<exists>t. pattern2 t = Some g)"
    using re_search_suffix [of "pattern1 to_curr" page g] re_search_suffix [of pattern2 page g]
    by blast
  then obtain t r where "match_decimal t = Some (g, r)"
    using pattern_group by blast
  from match_decimal_shape [OF this] show ?thesis
    using py_float_of_decimal by blast
qed

text \<open>
  \<open>get_xe_rate\<close> returns a rate, or raises the parse failure or the exception of the
  request.
\<close>

lemma get_xe_rate_raises:
  assumes "get_xe_rate w from_curr to_curr = Inl e"
  shows "xe_text w from_curr to_curr = Inl e
       \<or> e = RuntimeError (''XE parse failed for '' @ from_curr @ ''->'' @ to_curr)"
proof (cases "xe_text w from_curr to_curr")
  case (Inl e')
  with assms show ?thesis by (simp add: get_xe_rate_def)
next
  case (Inr page)
  show ?thesis
  proof (cases "re_search (pattern1 to_curr) page")
    case None
    show ?thesis
    proof (cases "re_search pattern2 page")
      case n2: None
      with assms Inr None show ?thesis by (simp add: get_xe_rate_def)
    next
      case (Some g)
      then obtain v where "py_float g = Inr (Fin v)"
        using py_float_group by blast
      with assms Inr None Some show ?thesis by (simp add: get_xe_rate_def)
    qed
  next
    case (Some g)
    then obtain v where "py_float g = Inr (Fin v)"
      using py_float_group by blast
    with assms Inr Some show ?thesis by (simp add: get_xe_rate_def)
  qed
qed

subsection \<open>The loop over the coins\<close>

text \<open>
  One pass of the loop only appends to the two lists, and what it appends does not
  depend on what they hold.
\<close>

lemma try_coin_append:
  "try_coin w ts thr fx coin (rows, alerts) =
     (case try_coin w ts thr fx coin ([], []) of
        ((r, a), res) \<Rightarrow> ((rows @ r, alerts @ a), res))"
  by (simp add: try_coin_def Let_def split: sum.splits prod.splits)

lemma coin_step_append:
  "coin_step w ts thr fx (rows, alerts) coin =
     (rows @ fst (coin_step w ts thr fx ([], []) coin),
      alerts @ snd (coin_step w ts thr fx ([], []) coin))"
  unfolding coin_step_def
  by (subst try_coin_append) (simp split: sum.splits prod.splits)

lemma foldl_coin_step:
  "foldl (coin_step w ts thr fx) (rows, alerts) coins =
     (rows @ concat (map (\<lambda>c. fst (coin_step w ts thr fx ([], []) c)) coins),
      alerts @ concat (map (\<lambda>c. snd (coin_step w ts thr fx ([], []) c)) coins))"
proof (induction coins arbitrary: rows alerts)
  case Nil
  show ?case by simp
next
  case (Cons c cs)
  show ?case
    by (simp only: foldl_Cons coin_step_append [of w ts thr fx rows alerts c] Cons.IH)
       simp
qed

lemma for_coins_concat:
  "for_coins w ts thr fx coins =
     (concat (map (\<lambda>c. fst (coin_step w ts thr fx ([], []) c)) coins),
      concat (map (\<lambda>c. snd (coin_step w ts thr fx ([], []) c)) coins))"
  by (simp add: for_coins_def foldl_coin_step)

text \<open>The body of the try when both tickers answer and no divisor is zero.\<close>

lemma try_coin_ok:
  assumes "kucoin_prices w coin = Inr (ku_bid, ku_ask)"
    and "luno_prices_myr w coin = Inr (lu_bid, lu_ask)"
    and "fst fx \<noteq> 0"
    and "lu_bid / fst fx + ku_ask \<noteq> 0"
    and "lu_ask / fst fx + ku_bid \<noteq> 0"
  shows "try_coin w ts thr fx coin (rows, alerts) =
    ((rows @
       [data_row ts ''Bid'' coin lu_bid ku_ask fx (lu_bid / fst fx)
          (10000 * ((lu_bid / fst fx - ku_ask) / ((lu_bid / fst fx + ku_ask) / 2))),
        data_row ts ''Ask'' coin lu_ask ku_bid fx (lu_ask / fst fx)
          (10000 * ((lu_ask / fst fx - ku_bid) / ((lu_ask / fst fx + ku_bid) / 2)))],
      alerts @
       (if ge_float (10000 * ((lu_bid / fst fx - ku_ask) / ((lu_bid / fst fx + ku_ask) / 2))) thr
        then [(coin, ''Bid'',
               10000 * ((lu_bid / fst fx - ku_ask) / ((lu_bid / fst fx + ku_ask) / 2)),
               lu_bid / fst fx, ku_ask)]
        else []) @
       (if ge_float (10000 * ((lu_ask / fst fx - ku_bid) / ((lu_ask / fst fx + ku_bid) / 2))) thr
        then [(coin, ''Ask'',
               10000 * ((lu_ask / fst fx - ku_bid) / ((lu_ask / fst fx + ku_bid) / 2)),
               lu_ask / fst fx, ku_bid)]
        else [])),
     Inr ())"
  using assms by (simp add: try_coin_def py_div_def spread_bps_def Let_def)

lemma try_coin_kucoin_fails:
  "kucoin_prices w coin = Inl e \<Longrightarrow>
   try_coin w ts thr fx coin (rows, alerts) = ((rows, alerts), Inl e)"
  by (simp add: try_coin_def)

lemma try_coin_luno_fails:
  "kucoin_prices w coin = Inr q \<Longrightarrow> luno_prices_myr w coin = Inl e \<Longrightarrow>
   try_coin w ts thr fx coin (rows, alerts) = ((rows, alerts), Inl e)"
  by (cases q) (simp add: try_coin_def)

lemma row_alert_data_row:
  "row_alert thr (data_row ts side coin lu_price ku_price fx luno_usd spr) =
     (if ge_float spr thr then [(coin, side, spr, luno_usd, ku_price)] else [])"
  by (cases fx) (simp add: data_row_def row_alert_def)

lemma row_alert_err_row: "row_alert thr (err_row ts coin fx e) = []"
  by (cases fx) (simp add: err_row_def row_alert_def)

lemma coin_step_alerts:
  "snd (coin_step w ts thr fx ([], []) coin) =
     concat (map (row_alert thr) (fst (coin_step w ts thr fx ([], []) coin)))"
  by (simp add: coin_step_def try_coin_def Let_def row_alert_data_row row_alert_err_row
           split: sum.splits prod.splits)

lemma coin_step_at_most_two:
  "length (snd (coin_step w ts thr fx ([], []) coin)) \<le> 2"
  by (simp add: coin_step_def try_coin_def Let_def split: sum.splits prod.splits)

lemma for_coins_alerts:
  "snd (for_coins w ts thr fx coins) =
     concat (map (row_alert thr) (fst (for_coins w ts thr fx coins)))"
proof -
  have "concat (map (\<lambda>c. snd (coin_step w ts thr fx ([], []) c)) coins) =
        concat (map (row_alert thr)
          (concat (map (\<lambda>c. fst (coin_step w ts thr fx ([], []) c)) coins)))"
    by (induction coins) (simp_all add: coin_step_alerts)
  then show ?thesis
    by (simp add: for_coins_concat)
qed

subsection \<open>The sample world, evaluated\<close>

lemmas float_defs = py_float_def parse_number_def take_sign_def digits_val_def digit_val_def
  strip_def is_space_def is_digit_def lower_char_def Let_def

lemma demo_settings:
  "load_settings (setting_ws demo_world) =
     Inr (Fin 200, Fin 10, [''BTC'', ''LTC'', ''XRP''], ''T'', ''42'')"
  by (simp add: demo_world_def load_settings_def settings_dict_def put_row_def dict_get_def
        parse_coins_def upper_def upper_char_def float_defs)

lemma demo_usd_thb: "get_xe_rate demo_world ''USD'' ''THB'' = Inr 36"
  by (simp add: demo_world_def get_xe_rate_def pattern1_def pattern2_def match_literal_def
        match_decimal_def float_defs)

lemma demo_myr_thb: "get_xe_rate demo_world ''MYR'' ''THB'' = Inr 9"
  by (simp add: demo_world_def get_xe_rate_def pattern1_def pattern2_def match_literal_def
        match_decimal_def float_defs)

lemma demo_fx: "fx_rates demo_world = Inr (4, 36, 9)"
  by (simp add: fx_rates_def demo_usd_thb demo_myr_thb py_div_def)

lemma demo_rows:
  "fst (for_coins demo_world ts (Fin 200) (4, 36, 9) [''BTC'', ''LTC'', ''XRP'']) =
     [[S ts, S ''Bid'', S ''BTC'', F 404, F 99, F 4, F 36, F 9, F 101, F 200, S ''''],
      [S ts, S ''Ask'', S ''BTC'', F 408, F 98, F 4, F 36, F 9, F 102, F 400, S ''''],
      [S ts, S ''Bid'', S ''LTC'', F 396, F 101, F 4, F 36, F 9, F 99, F (- 200), S ''''],
      [S ts, S ''Ask'', S ''LTC'', F 400, F 100, F 4, F 36, F 9, F 100, F 0, S ''''],
      [S ts, S ''ERR'', S ''XRP'', S '''', S '''', F 4, F 36, F 9, S '''', S '''',
       StrOf (FetchError ''timeout'')]]"
  by (simp add: for_coins_def coin_step_def try_coin_def kucoin_prices_def
        luno_prices_myr_def demo_world_def py_div_def spread_bps_def data_row_def
        err_row_def)

subsection \<open>Two observations per asset\<close>

text \<open>
  C1. When both tickers answer for a coin, with strictly positive bids and asks, and
  the derived rate is strictly positive, one pass of the loop appends exactly two rows
  for the coin. The Bid row holds the Luno bid divided by the derived rate as its
  normalised price and \<open>10000 * (normalised - KuCoin ask) / ((normalised + KuCoin ask) / 2)\<close>
  as its spread; the Ask row holds the Luno ask divided by the derived rate and
  \<open>10000 * (normalised - KuCoin bid) / ((normalised + KuCoin bid) / 2)\<close>. The rows are
  appended whatever the sign of the spread and whatever the threshold.
\<close>

theorem two_observations:
  assumes "kucoin_prices w coin = Inr (ku_bid, ku_ask)"
    and "luno_prices_myr w coin = Inr (lu_bid, lu_ask)"
    and "0 < ku_bid" and "0 < ku_ask" and "0 < lu_bid" and "0 < lu_ask"
    and "0 < usd_myr"
  shows "fst (coin_step w ts thr (usd_myr, usd_thb, myr_thb) (rows, alerts) coin) =
     rows @
     [[S ts, S ''Bid'', S coin, F lu_bid, F ku_ask, F usd_myr, F usd_thb, F myr_thb,
       F (lu_bid / usd_myr),
       F (10000 * (lu_bid / usd_myr - ku_ask) / ((lu_bid / usd_myr + ku_ask) / 2)),
       S ''''],
      [S ts, S ''Ask'', S coin, F lu_ask, F ku_bid, F usd_myr, F usd_thb, F myr_thb,
       F (lu_ask / usd_myr),
       F (10000 * (lu_ask / usd_myr - ku_bid) / ((lu_ask / usd_myr + ku_bid) / 2)),
       S '''']]"
proof -
  have "0 < lu_bid / usd_myr" "0 < lu_ask / usd_myr"
    using assms by simp_all
  then have nz: "lu_bid / usd_myr + ku_ask \<noteq> 0" "lu_ask / usd_myr + ku_bid \<noteq> 0"
    using assms by linarith+
  have r: "fst (usd_myr, usd_thb, myr_thb) \<noteq> 0"
    using assms by simp
  show ?thesis
    using try_coin_ok [OF assms(1,2) r, of ts thr rows alerts] nz
    by (simp add: coin_step_def data_row_def)
qed

theorem two_observations_witness:
  "fst (coin_step demo_world ''t'' (Fin 200) (4, 36, 9) ([], []) ''LTC'') =
     [[S ''t'', S ''Bid'', S ''LTC'', F 396, F 101, F 4, F 36, F 9, F 99, F (- 200), S ''''],
      [S ''t'', S ''Ask'', S ''LTC'', F 400, F 100, F 4, F 36, F 9, F 100, F 0, S '''']]"
proof -
  have k: "kucoin_prices demo_world ''LTC'' = Inr (100, 101)"
    by (simp add: kucoin_prices_def demo_world_def)
  have l: "luno_prices_myr demo_world ''LTC'' = Inr (396, 400)"
    by (simp add: luno_prices_myr_def demo_world_def)
  show ?thesis
    using two_observations [OF k l, of 4 "''t''" "Fin 200" 36 9 "[]" "[]"] by simp
qed

subsection \<open>The alert decision\<close>

text \<open>
  C3. The alerts of a cycle are exactly the alerts of its rows, in their order: a
  data row gives an alert if and only if its spread is at least the threshold, each
  row on its own, so a coin gives at most two. Against a finite threshold \<open>t\<close> the
  test is \<open>t \<le> spr\<close>: with 200 a spread of 200 alerts and one of 199.999 does not, and
  a negative spread never alerts when the threshold is not negative.
\<close>

theorem alert_iff_threshold:
  "snd (for_coins w ts thr fx coins) =
     concat (map (row_alert thr) (fst (for_coins w ts thr fx coins)))
   \<and> row_alert thr (data_row ts side coin lu_price ku_price fx luno_usd spr) =
       (if ge_float spr thr then [(coin, side, spr, luno_usd, ku_price)] else [])
   \<and> (ge_float spr (Fin t) \<longleftrightarrow> t \<le> spr)
   \<and> ge_float 200 (Fin 200) \<and> \<not> ge_float 199.999 (Fin 200)
   \<and> (0 \<le> t \<and> spr < 0 \<longrightarrow> \<not> ge_float spr (Fin t))
   \<and> length (snd (coin_step w ts thr fx ([], []) coin)) \<le> 2"
  by (simp add: for_coins_alerts row_alert_data_row coin_step_at_most_two)

theorem alert_iff_threshold_witness:
  "snd (for_coins demo_world ''t'' (Fin 200) (4, 36, 9) [''BTC'', ''LTC'', ''XRP'']) =
     [(''BTC'', ''Bid'', 200, 101, 99), (''BTC'', ''Ask'', 400, 102, 98)]
   \<and> (0::real) \<le> 200 \<and> (- 200::real) < 0 \<and> \<not> ge_float (- 200) (Fin 200)"
  using alert_iff_threshold [where w = demo_world and ts = "''t''" and thr = "Fin 200"
      and fx = "(4, 36, 9)" and coins = "[''BTC'', ''LTC'', ''XRP'']" and t = 200
      and spr = "- 200"]
  by (simp add: demo_rows row_alert_def)

subsection \<open>The derived rate\<close>

text \<open>
  C2. When the two rate fetches return \<open>r1\<close> for USD to THB and \<open>r2\<close> for MYR to THB,
  with \<open>r2\<close> strictly positive, the derived USD/MYR rate is \<open>r1 / r2\<close> (and the two
  fetched rates are kept beside it). For 34.50 and 8.20 the derived rate is
  \<open>34.50 / 8.20\<close>, which is 4.2073 to four places.
\<close>

theorem derived_rate:
  assumes "get_xe_rate w ''USD'' ''THB'' = Inr r1"
    and "get_xe_rate w ''MYR'' ''THB'' = Inr r2"
    and "0 < r2"
  shows "fx_rates w = Inr (r1 / r2, r1, r2)"
  using assms by (simp add: fx_rates_def py_div_def)

lemma rates_usd_thb: "get_xe_rate rates_world ''USD'' ''THB'' = Inr 34.5"
  by (simp add: rates_world_def demo_world_def get_xe_rate_def pattern1_def pattern2_def
        match_literal_def match_decimal_def float_defs)

lemma rates_myr_thb: "get_xe_rate rates_world ''MYR'' ''THB'' = Inr 8.2"
  by (simp add: rates_world_def demo_world_def get_xe_rate_def pattern1_def pattern2_def
        match_literal_def match_decimal_def float_defs)

theorem derived_rate_witness:
  "fx_rates rates_world = Inr (34.5 / 8.2, 34.5, 8.2)
   \<and> (case fx_rates rates_world of
        Inl e \<Rightarrow> False
      | Inr (d, r1, r2) \<Rightarrow> \<bar>d - 34.5 / 8.2\<bar> \<le> 1 / 10 ^ 9 \<and> \<bar>d - 4.2073\<bar> < 1 / 10 ^ 4)"
proof -
  have "fx_rates rates_world = Inr (34.5 / 8.2, 34.5, 8.2)"
    using derived_rate [OF rates_usd_thb rates_myr_thb] by simp
  then show ?thesis
    by simp
qed

subsection \<open>One asset fails\<close>

lemma coin_step_fetch_fails:
  assumes "kucoin_prices w c = Inl e
           \<or> (\<exists>q. kucoin_prices w c = Inr q \<and> luno_prices_myr w c = Inl e)"
  shows "coin_step w ts thr fx ([], []) c = ([err_row ts c fx e], [])"
  using assms
  by (auto simp: coin_step_def try_coin_kucoin_fails try_coin_luno_fails)

lemma coin_step_success:
  assumes "snd (try_coin w ts thr fx d ([], [])) = Inr ()"
  shows "\<exists>lu_bid ku_ask luno_usd spr lu_ask ku_bid luno_usd2 spr2.
           fst (coin_step w ts thr fx ([], []) d) =
             [data_row ts ''Bid'' d lu_bid ku_ask fx luno_usd spr,
              data_row ts ''Ask'' d lu_ask ku_bid fx luno_usd2 spr2]"
  using assms
  by (auto simp: coin_step_def try_coin_def Let_def split: sum.splits prod.splits)

lemma is_err_row_simps:
  "is_err_row (err_row ts c fx e)"
  "is_err_row (data_row ts ''Bid'' d a b fx x y) = False"
  "is_err_row (data_row ts ''Ask'' d a b fx x y) = False"
  by (cases fx; simp add: is_err_row_def err_row_def data_row_def)+

lemma success_rows_shape:
  assumes "\<forall>d\<in>set ds. snd (try_coin w ts thr fx d ([], [])) = Inr ()"
  shows "length (concat (map (\<lambda>d. fst (coin_step w ts thr fx ([], []) d)) ds)) = 2 * length ds
       \<and> filter is_err_row (concat (map (\<lambda>d. fst (coin_step w ts thr fx ([], []) d)) ds)) = []"
  using assms
proof (induction ds)
  case Nil
  show ?case by simp
next
  case (Cons d ds)
  from Cons.prems have "snd (try_coin w ts thr fx d ([], [])) = Inr ()"
    by simp
  from coin_step_success [OF this] obtain a b x y a2 b2 x2 y2 where
    "fst (coin_step w ts thr fx ([], []) d) =
       [data_row ts ''Bid'' d a b fx x y, data_row ts ''Ask'' d a2 b2 fx x2 y2]"
    by blast
  with Cons show ?case
    by (simp add: is_err_row_simps)
qed

lemma demo_try_ok:
  "snd (try_coin demo_world ''t'' (Fin 200) (4, 36, 9) ''BTC'' ([], [])) = Inr ()"
  "snd (try_coin demo_world ''t'' (Fin 200) (4, 36, 9) ''LTC'' ([], [])) = Inr ()"
  by (simp_all add: try_coin_def kucoin_prices_def luno_prices_myr_def demo_world_def
        py_div_def spread_bps_def)

lemma demo_try_fails:
  "kucoin_prices demo_world ''XRP'' = Inl (FetchError ''timeout'')"
  by (simp add: kucoin_prices_def demo_world_def)

text \<open>
  C5. In a list of \<open>N\<close> coins, when a ticker request fails for the coin \<open>c\<close> and the
  body of the \<open>try\<close> ends normally for every other coin, the rows of the cycle are the
  two rows (Bid, then Ask) of each coin before \<open>c\<close>, one error row for \<open>c\<close>, and the
  two rows of each coin after \<open>c\<close>: exactly one error row and \<open>2 * (N - 1)\<close> other
  rows. The coins after the failed one are processed.
\<close>

theorem one_failed_asset:
  assumes fails: "kucoin_prices w c = Inl e
           \<or> (\<exists>q. kucoin_prices w c = Inr q \<and> luno_prices_myr w c = Inl e)"
    and others: "\<forall>d\<in>set xs \<union> set ys. snd (try_coin w ts thr fx d ([], [])) = Inr ()"
  shows "fst (for_coins w ts thr fx (xs @ c # ys)) =
           concat (map (\<lambda>d. fst (coin_step w ts thr fx ([], []) d)) xs)
           @ [err_row ts c fx e]
           @ concat (map (\<lambda>d. fst (coin_step w ts thr fx ([], []) d)) ys)
       \<and> (\<forall>d\<in>set xs \<union> set ys.
            \<exists>lu_bid ku_ask luno_usd spr lu_ask ku_bid luno_usd2 spr2.
              fst (coin_step w ts thr fx ([], []) d) =
                [data_row ts ''Bid'' d lu_bid ku_ask fx luno_usd spr,
                 data_row ts ''Ask'' d lu_ask ku_bid fx luno_usd2 spr2])
       \<and> filter is_err_row (fst (for_coins w ts thr fx (xs @ c # ys))) = [err_row ts c fx e]
       \<and> length (filter (\<lambda>r. \<not> is_err_row r) (fst (for_coins w ts thr fx (xs @ c # ys))))
           = 2 * (length (xs @ c # ys) - 1)"
proof -
  let ?f = "\<lambda>d. fst (coin_step w ts thr fx ([], []) d)"
  have rows: "fst (for_coins w ts thr fx (xs @ c # ys)) =
      concat (map ?f xs) @ [err_row ts c fx e] @ concat (map ?f ys)"
    by (simp add: for_coins_concat coin_step_fetch_fails [OF fails])
  have x: "length (concat (map ?f xs)) = 2 * length xs"
          "filter is_err_row (concat (map ?f xs)) = []"
    using success_rows_shape [of xs w ts thr fx] others by simp_all
  have y: "length (concat (map ?f ys)) = 2 * length ys"
          "filter is_err_row (concat (map ?f ys)) = []"
    using success_rows_shape [of ys w ts thr fx] others by simp_all
  have shape: "\<forall>d\<in>set xs \<union> set ys.
     \<exists>lu_bid ku_ask luno_usd spr lu_ask ku_bid luno_usd2 spr2.
       ?f d = [data_row ts ''Bid'' d lu_bid ku_ask fx luno_usd spr,
               data_row ts ''Ask'' d lu_ask ku_bid fx luno_usd2 spr2]"
    using others coin_step_success by blast
  have errs: "filter is_err_row (fst (for_coins w ts thr fx (xs @ c # ys))) = [err_row ts c fx e]"
    by (simp add: rows x y is_err_row_simps)
  have "length (filter (\<lambda>r. \<not> is_err_row r) (concat (map ?f xs))) = 2 * length xs"
    using x sum_length_filter_compl [of is_err_row "concat (map ?f xs)"] by simp
  moreover have "length (filter (\<lambda>r. \<not> is_err_row r) (concat (map ?f ys))) = 2 * length ys"
    using y sum_length_filter_compl [of is_err_row "concat (map ?f ys)"] by simp
  ultimately have ok: "length (filter (\<lambda>r. \<not> is_err_row r)
       (fst (for_coins w ts thr fx (xs @ c # ys)))) = 2 * (length (xs @ c # ys) - 1)"
    by (simp add: rows is_err_row_simps)
  from rows shape errs ok show ?thesis
    by blast
qed

theorem one_failed_asset_witness:
  "filter is_err_row (fst (for_coins demo_world ''t'' (Fin 200) (4, 36, 9)
       [''BTC'', ''XRP'', ''LTC''])) =
     [[S ''t'', S ''ERR'', S ''XRP'', S '''', S '''', F 4, F 36, F 9, S '''', S '''',
       StrOf (FetchError ''timeout'')]]
   \<and> length (filter (\<lambda>r. \<not> is_err_row r) (fst (for_coins demo_world ''t'' (Fin 200)
       (4, 36, 9) [''BTC'', ''XRP'', ''LTC'']))) = 4"
proof -
  have f: "kucoin_prices demo_world ''XRP'' = Inl (FetchError ''timeout'')
     \<or> (\<exists>q. kucoin_prices demo_world ''XRP'' = Inr q
            \<and> luno_prices_myr demo_world ''XRP'' = Inl (FetchError ''timeout''))"
    by (simp add: demo_try_fails)
  have o: "\<forall>d\<in>set [''BTC''] \<union> set [''LTC''].
      snd (try_coin demo_world ''t'' (Fin 200) (4, 36, 9) d ([], [])) = Inr ()"
    by (simp add: demo_try_ok)
  show ?thesis
    using one_failed_asset [OF f o, THEN conjunct2, THEN conjunct2]
    by (simp add: err_row_def)
qed

subsection \<open>The error row\<close>

text \<open>
  C7. When the body of the \<open>try\<close> raises \<open>e\<close> for a coin, the pass of the loop ends
  by appending one error row: the time, \<open>ERR\<close>, the coin, two empty cells for the
  prices, the derived USD/MYR rate, the USD/THB rate, the MYR/THB rate, two empty
  cells for the normalised price and the spread, and the text of \<open>e\<close>. The four price
  and spread cells are the empty string, not the number zero.
\<close>

theorem error_row_fields:
  assumes "snd (try_coin w ts thr (usd_myr, usd_thb, myr_thb) coin (rows, alerts)) = Inl e"
  shows "fst (coin_step w ts thr (usd_myr, usd_thb, myr_thb) (rows, alerts) coin) =
           fst (fst (try_coin w ts thr (usd_myr, usd_thb, myr_thb) coin (rows, alerts)))
           @ [[S ts, S ''ERR'', S coin, S '''', S '''', F usd_myr, F usd_thb, F myr_thb,
               S '''', S '''', StrOf e]]
       \<and> (\<forall>i\<in>{3, 4, 8, 9}.
            last (fst (coin_step w ts thr (usd_myr, usd_thb, myr_thb) (rows, alerts) coin)) ! i
              = S ''''
          \<and> last (fst (coin_step w ts thr (usd_myr, usd_thb, myr_thb) (rows, alerts) coin)) ! i
              \<noteq> F 0)"
proof -
  obtain r a where t: "try_coin w ts thr (usd_myr, usd_thb, myr_thb) coin (rows, alerts)
      = ((r, a), Inl e)"
    using assms by (metis prod.collapse)
  then show ?thesis
    by (simp add: coin_step_def err_row_def)
qed

theorem error_row_fields_witness:
  "fst (coin_step demo_world ''t'' (Fin 200) (4, 36, 9) ([], []) ''XRP'') =
     [[S ''t'', S ''ERR'', S ''XRP'', S '''', S '''', F 4, F 36, F 9, S '''', S '''',
       StrOf (FetchError ''timeout'')]]"
proof -
  have t: "snd (try_coin demo_world ''t'' (Fin 200) (4, 36, 9) ''XRP'' ([], []))
      = Inl (FetchError ''timeout'')"
    by (simp add: try_coin_kucoin_fails [OF demo_try_fails])
  have "fst (fst (try_coin demo_world ''t'' (Fin 200) (4, 36, 9) ''XRP'' ([], []))) = []"
    by (simp add: try_coin_kucoin_fails [OF demo_try_fails])
  then show ?thesis
    using error_row_fields [OF t] by simp
qed

subsection \<open>A run of \<open>main\<close>\<close>

lemma notify_log_ws: "log_ws (notify token chat_id ts fx alerts st) = log_ws st"
proof -
  have "log_ws (foldl (\<lambda>s a. send_telegram (alert_message token chat_id ts fx a) s) st alerts)
        = log_ws st"
    by (induction alerts arbitrary: st) (simp_all add: send_telegram_def)
  then show ?thesis
    by (simp add: notify_def)
qed

lemma notify_telegram:
  "telegram (notify token chat_id ts fx alerts st) =
     telegram st @ (if token \<noteq> [] \<and> chat_id \<noteq> []
                    then map (alert_message token chat_id ts fx) alerts else [])"
proof -
  have "telegram (foldl (\<lambda>s a. send_telegram (alert_message token chat_id ts fx a) s) st alerts)
        = telegram st @ map (alert_message token chat_id ts fx) alerts"
    by (induction alerts arbitrary: st) (simp_all add: send_telegram_def)
  then show ?thesis
    by (simp add: notify_def)
qed

lemma main_settings_fail:
  "load_settings (setting_ws w) = Inl e \<Longrightarrow>
   main w st = (st\<lparr>log_ws := ensure_headers (log_ws st)\<rparr>, Inl e)"
  by (simp add: main_def)

lemma main_fx_fail:
  "load_settings (setting_ws w) = Inr s \<Longrightarrow> fx_rates w = Inl e \<Longrightarrow>
   main w st = (st\<lparr>log_ws := ensure_headers (log_ws st)\<rparr>, Inl e)"
  by (cases s) (simp add: main_def)

lemma main_ok:
  "load_settings (setting_ws w) = Inr (alert_bps, cooldown_min, coins, token, chat_id) \<Longrightarrow>
   fx_rates w = Inr fx \<Longrightarrow>
   main w st =
     (notify token chat_id (now w) fx (snd (for_coins w (now w) alert_bps fx coins))
        (st\<lparr>log_ws := ensure_headers (log_ws st)
                        @ fst (for_coins w (now w) alert_bps fx coins)\<rparr>),
      Inr ())"
  by (simp add: main_def Let_def split: prod.splits)

lemma fx_rates_fail:
  assumes "get_xe_rate w ''USD'' ''THB'' = Inl e
           \<or> (\<exists>r. get_xe_rate w ''USD'' ''THB'' = Inr r \<and> get_xe_rate w ''MYR'' ''THB'' = Inl e)"
  shows "fx_rates w = Inl e"
  using assms by (auto simp: fx_rates_def)

lemma no_rate_parse:
  "get_xe_rate no_rate_world ''USD'' ''THB'' = Inl (RuntimeError ''XE parse failed for USD->THB'')"
  by (simp add: no_rate_world_def demo_world_def get_xe_rate_def pattern1_def pattern2_def
        match_literal_def match_decimal_def is_digit_def)

lemma no_rate_settings:
  "load_settings (setting_ws no_rate_world) =
     Inr (Fin 200, Fin 10, [''BTC'', ''LTC'', ''XRP''], ''T'', ''42'')"
  using demo_settings by (simp add: no_rate_world_def)

subsection \<open>A failed rate fetch\<close>

text \<open>
  C4, as the specification states it, fails on an empty log tab: the header check
  runs before the rate fetches, so a cycle whose first rate page cannot be parsed
  still appends the header row.
\<close>

theorem fx_failure_header_counterexample:
  "get_xe_rate no_rate_world ''USD'' ''THB'' = Inl (RuntimeError ''XE parse failed for USD->THB'')
   \<and> log_ws empty_state = []
   \<and> log_ws (fst (main no_rate_world empty_state)) = [header_row]"
proof -
  have "fx_rates no_rate_world = Inl (RuntimeError ''XE parse failed for USD->THB'')"
    by (rule fx_rates_fail) (simp add: no_rate_parse)
  then show ?thesis
    by (simp add: main_fx_fail [OF no_rate_settings] no_rate_parse empty_state_def
          ensure_headers_def)
qed

text \<open>
  C4, amended. When either rate fetch raises, \<open>main\<close> ends with an exception (the
  one of the fetch, when the settings were loaded), no coin is processed, no data
  row and no error row is appended, and no message is sent. The log tab is left as
  the header check left it: with the header row alone when it was empty, and
  unchanged otherwise.
\<close>

theorem fx_failure_aborts:
  assumes "get_xe_rate w ''USD'' ''THB'' = Inl e
           \<or> (\<exists>r. get_xe_rate w ''USD'' ''THB'' = Inr r \<and> get_xe_rate w ''MYR'' ''THB'' = Inl e)"
  shows "(\<exists>e'. snd (main w st) = Inl e')
       \<and> (\<forall>s. load_settings (setting_ws w) = Inr s \<longrightarrow> snd (main w st) = Inl e)
       \<and> log_ws (fst (main w st)) = ensure_headers (log_ws st)
       \<and> telegram (fst (main w st)) = telegram st
       \<and> (log_ws st \<noteq> [] \<longrightarrow> fst (main w st) = st)"
proof (cases "load_settings (setting_ws w)")
  case (Inl e')
  show ?thesis
    by (simp add: main_settings_fail [OF Inl] Inl ensure_headers_def)
next
  case (Inr s)
  show ?thesis
    by (simp add: main_fx_fail [OF Inr fx_rates_fail [OF assms]] Inr ensure_headers_def)
qed

theorem fx_failure_aborts_witness:
  "snd (main no_rate_world empty_state) = Inl (RuntimeError ''XE parse failed for USD->THB'')
   \<and> log_ws (fst (main no_rate_world empty_state)) = [header_row]
   \<and> telegram (fst (main no_rate_world empty_state)) = []
   \<and> fst (main no_rate_world \<lparr>log_ws = [header_row], telegram = []\<rparr>)
       = \<lparr>log_ws = [header_row], telegram = []\<rparr>"
proof -
  have a: "get_xe_rate no_rate_world ''USD'' ''THB''
             = Inl (RuntimeError ''XE parse failed for USD->THB'')
     \<or> (\<exists>r. get_xe_rate no_rate_world ''USD'' ''THB'' = Inr r
           \<and> get_xe_rate no_rate_world ''MYR'' ''THB''
               = Inl (RuntimeError ''XE parse failed for USD->THB''))"
    by (simp add: no_rate_parse)
  show ?thesis
    using fx_failure_aborts [OF a, of empty_state]
      fx_failure_aborts [OF a, of "\<lparr>log_ws = [header_row], telegram = []\<rparr>"]
    by (simp add: no_rate_settings empty_state_def ensure_headers_def)
qed

subsection \<open>The cool-down setting\<close>

text \<open>
  Only \<open>load_settings\<close> reads the settings tab: the rates and the loop over the coins
  do not depend on it.
\<close>

lemma get_xe_rate_settings:
  "get_xe_rate (w\<lparr>setting_ws := sh\<rparr>) from_curr to_curr = get_xe_rate w from_curr to_curr"
  by (simp add: get_xe_rate_def)

lemma tickers_settings:
  "kucoin_prices (w\<lparr>setting_ws := sh\<rparr>) coin = kucoin_prices w coin"
  "luno_prices_myr (w\<lparr>setting_ws := sh\<rparr>) coin = luno_prices_myr w coin"
  by (simp_all add: kucoin_prices_def luno_prices_myr_def)

lemma fx_rates_settings: "fx_rates (w\<lparr>setting_ws := sh\<rparr>) = fx_rates w"
  unfolding fx_rates_def get_xe_rate_settings by (rule refl)

lemma for_coins_settings:
  "for_coins (w\<lparr>setting_ws := sh\<rparr>) ts thr fx coins = for_coins w ts thr fx coins"
proof -
  have "try_coin (w\<lparr>setting_ws := sh\<rparr>) ts thr fx = try_coin w ts thr fx"
    unfolding try_coin_def tickers_settings by (rule refl)
  then have "coin_step (w\<lparr>setting_ws := sh\<rparr>) ts thr fx = coin_step w ts thr fx"
    by (intro ext) (simp add: coin_step_def)
  then show ?thesis
    by (simp add: for_coins_def)
qed

lemma main_settings_only:
  "main (w\<lparr>setting_ws := sh\<rparr>) st =
     (case load_settings sh of
        Inl e \<Rightarrow> (st\<lparr>log_ws := ensure_headers (log_ws st)\<rparr>, Inl e)
      | Inr (alert_bps, cooldown_min, coins, token, chat_id) \<Rightarrow>
          (case fx_rates w of
             Inl e \<Rightarrow> (st\<lparr>log_ws := ensure_headers (log_ws st)\<rparr>, Inl e)
           | Inr fx \<Rightarrow>
               (notify token chat_id (now w) fx (snd (for_coins w (now w) alert_bps fx coins))
                  (st\<lparr>log_ws := ensure_headers (log_ws st)
                                  @ fst (for_coins w (now w) alert_bps fx coins)\<rparr>),
                Inr ())))"
  by (simp add: main_def Let_def fx_rates_settings for_coins_settings
        split: sum.splits prod.splits)

lemma load_settings_same:
  assumes same: "\<forall>k. k \<noteq> ''COOLDOWN_MIN'' \<longrightarrow> settings_dict sh1 k = settings_dict sh2 k"
    and p1: "py_float (dict_get (settings_dict sh1) ''COOLDOWN_MIN'' ''10'') = Inr c1"
    and p2: "py_float (dict_get (settings_dict sh2) ''COOLDOWN_MIN'' ''10'') = Inr c2"
  shows "without_cooldown (load_settings sh1) = without_cooldown (load_settings sh2)"
proof -
  have g: "dict_get (settings_dict sh1) k d = dict_get (settings_dict sh2) k d"
    if "k \<noteq> ''COOLDOWN_MIN''" for k d
    using same that by (simp add: dict_get_def)
  have ga: "dict_get (settings_dict sh1) ''ALERT_BPS'' ''200''
          = dict_get (settings_dict sh2) ''ALERT_BPS'' ''200''"
    by (rule g) simp
  have gc: "dict_get (settings_dict sh1) ''COINS'' ''BTC,ETH''
          = dict_get (settings_dict sh2) ''COINS'' ''BTC,ETH''"
    by (rule g) simp
  have gt: "dict_get (settings_dict sh1) ''TELEGRAM_BOT_TOKEN'' ''''
          = dict_get (settings_dict sh2) ''TELEGRAM_BOT_TOKEN'' ''''"
    by (rule g) simp
  have gi: "dict_get (settings_dict sh1) ''TELEGRAM_CHAT_ID'' ''''
          = dict_get (settings_dict sh2) ''TELEGRAM_CHAT_ID'' ''''"
    by (rule g) simp
  show ?thesis
  proof (cases "py_float (dict_get (settings_dict sh2) ''ALERT_BPS'' ''200'')")
    case (Inl e)
    then show ?thesis
      by (simp add: load_settings_def without_cooldown_def Let_def ga)
  next
    case (Inr a)
    then show ?thesis
      by (simp add: load_settings_def without_cooldown_def Let_def ga gc gt gi p1 p2)
  qed
qed

lemma main_without_cooldown:
  assumes "without_cooldown (load_settings sh1) = without_cooldown (load_settings sh2)"
  shows "main (w\<lparr>setting_ws := sh1\<rparr>) st = main (w\<lparr>setting_ws := sh2\<rparr>) st"
  using assms
  by (auto simp: main_settings_only without_cooldown_def split: sum.splits prod.splits)

lemma cooldown_sheet_dict:
  "k \<noteq> ''COOLDOWN_MIN'' \<Longrightarrow>
   settings_dict (cooldown_sheet v) k = settings_dict (setting_ws demo_world) k"
  by (simp add: cooldown_sheet_def settings_dict_def put_row_def strip_def is_space_def)

lemma cooldown_sheet_value:
  "dict_get (settings_dict (cooldown_sheet v)) ''COOLDOWN_MIN'' ''10'' = strip v"
  by (simp add: cooldown_sheet_def settings_dict_def put_row_def dict_get_def strip_def
        is_space_def)

lemma cooldown_sheet_10:
  "load_settings (cooldown_sheet ''10'') =
     Inr (Fin 200, Fin 10, [''BTC'', ''LTC'', ''XRP''], ''T'', ''42'')"
  by (simp add: cooldown_sheet_def demo_world_def load_settings_def settings_dict_def
        put_row_def dict_get_def parse_coins_def upper_def upper_char_def float_defs)

lemma cooldown_sheet_blank:
  "load_settings (cooldown_sheet '''') = Inl (ValueError '''')"
  by (simp add: cooldown_sheet_def demo_world_def load_settings_def settings_dict_def
        put_row_def dict_get_def float_defs)

lemma py_float_raises: "py_float s = Inl e \<Longrightarrow> e = ValueError s"
  by (auto simp: py_float_def Let_def split: option.splits prod.splits if_splits)

lemma load_settings_cooldown_rejected:
  assumes "py_float (dict_get (settings_dict sh) ''COOLDOWN_MIN'' ''10'') = Inl e"
  shows "\<exists>s. load_settings sh = Inl (ValueError s)
           \<and> (\<forall>a. py_float (dict_get (settings_dict sh) ''ALERT_BPS'' ''200'') = Inr a
                 \<longrightarrow> s = dict_get (settings_dict sh) ''COOLDOWN_MIN'' ''10'')"
proof (cases "py_float (dict_get (settings_dict sh) ''ALERT_BPS'' ''200'')")
  case (Inl e')
  then show ?thesis
    using py_float_raises [OF Inl] by (simp add: load_settings_def Let_def)
next
  case (Inr a)
  then show ?thesis
    using assms py_float_raises [OF assms] by (simp add: load_settings_def Let_def)
qed

lemma cooldown_sheet_alert:
  "py_float (dict_get (settings_dict (cooldown_sheet v)) ''ALERT_BPS'' ''200'') = Inr (Fin 200)"
  by (simp add: cooldown_sheet_def demo_world_def settings_dict_def put_row_def dict_get_def
        float_defs)

text \<open>
  C8, as the specification states it, fails: \<open>load_settings\<close> converts the value of
  \<open>COOLDOWN_MIN\<close> with \<open>float\<close>, so a value that \<open>float\<close> rejects ends the cycle.
  Two settings tabs that differ only in that value, \<open>10\<close> in one and a blank cell in
  the other: the first cycle appends the header and five rows and sends two
  messages, the second raises \<open>ValueError\<close> and appends the header alone.
\<close>

theorem cooldown_blank_counterexample:
  "snd (main (demo_world\<lparr>setting_ws := cooldown_sheet ''10''\<rparr>) empty_state) = Inr ()
   \<and> length (log_ws (fst (main (demo_world\<lparr>setting_ws := cooldown_sheet ''10''\<rparr>)
                              empty_state))) = 6
   \<and> length (telegram (fst (main (demo_world\<lparr>setting_ws := cooldown_sheet ''10''\<rparr>)
                              empty_state))) = 2
   \<and> main (demo_world\<lparr>setting_ws := cooldown_sheet ''''\<rparr>) empty_state
       = (\<lparr>log_ws = [header_row], telegram = []\<rparr>, Inl (ValueError ''''))"
  by (simp add: main_settings_only cooldown_sheet_10 cooldown_sheet_blank demo_fx
        notify_log_ws notify_telegram for_coins_alerts demo_rows row_alert_def
        empty_state_def ensure_headers_def)

text \<open>
  C8, amended. \<open>COOLDOWN_MIN\<close> is read, defaulted to 10 and converted with \<open>float\<close>.
  A value that \<open>float\<close> rejects ends the run with \<open>ValueError\<close> (the one of this
  value, when the threshold was accepted) in any world and from any state, so
  before any rate or ticker is fetched: nothing but the header check has happened.
  Beyond that conversion the value is never applied. Two runs of \<open>main\<close> whose
  settings agree on every key but \<open>COOLDOWN_MIN\<close>, both values accepted by \<open>float\<close>,
  in the same world and from the same state, return the same result and the same
  state (the same rows and the same messages), and \<open>load_settings\<close> returns the same
  threshold, coins and credentials.
\<close>

theorem cooldown_not_applied:
  assumes same: "\<forall>k. k \<noteq> ''COOLDOWN_MIN'' \<longrightarrow> settings_dict sh1 k = settings_dict sh2 k"
    and p1: "py_float (dict_get (settings_dict sh1) ''COOLDOWN_MIN'' ''10'') = Inr c1"
    and p2: "py_float (dict_get (settings_dict sh2) ''COOLDOWN_MIN'' ''10'') = Inr c2"
  shows "main (w\<lparr>setting_ws := sh1\<rparr>) st = main (w\<lparr>setting_ws := sh2\<rparr>) st
       \<and> without_cooldown (load_settings sh1) = without_cooldown (load_settings sh2)
       \<and> (settings_dict sh1 ''COOLDOWN_MIN'' = None \<longrightarrow> c1 = Fin 10)
       \<and> (\<forall>sh e. py_float (dict_get (settings_dict sh) ''COOLDOWN_MIN'' ''10'') = Inl e \<longrightarrow>
             e = ValueError (dict_get (settings_dict sh) ''COOLDOWN_MIN'' ''10'')
             \<and> (\<exists>s. (\<forall>w' st'. main (w'\<lparr>setting_ws := sh\<rparr>) st'
                          = (st'\<lparr>log_ws := ensure_headers (log_ws st')\<rparr>, Inl (ValueError s)))
                    \<and> (\<forall>a. py_float (dict_get (settings_dict sh) ''ALERT_BPS'' ''200'') = Inr a
                          \<longrightarrow> s = dict_get (settings_dict sh) ''COOLDOWN_MIN'' ''10'')))"
proof -
  have w: "without_cooldown (load_settings sh1) = without_cooldown (load_settings sh2)"
    using load_settings_same [OF same p1 p2] .
  have d: "settings_dict sh1 ''COOLDOWN_MIN'' = None \<longrightarrow> c1 = Fin 10"
    using p1 by (auto simp: dict_get_def float_defs)
  have r: "e = ValueError (dict_get (settings_dict sh) ''COOLDOWN_MIN'' ''10'')
         \<and> (\<exists>s. (\<forall>w' st'. main (w'\<lparr>setting_ws := sh\<rparr>) st'
                      = (st'\<lparr>log_ws := ensure_headers (log_ws st')\<rparr>, Inl (ValueError s)))
                \<and> (\<forall>a. py_float (dict_get (settings_dict sh) ''ALERT_BPS'' ''200'') = Inr a
                      \<longrightarrow> s = dict_get (settings_dict sh) ''COOLDOWN_MIN'' ''10''))"
    if rej: "py_float (dict_get (settings_dict sh) ''COOLDOWN_MIN'' ''10'') = Inl e" for sh e
  proof -
    obtain s where l: "load_settings sh = Inl (ValueError s)"
      and a: "\<forall>a. py_float (dict_get (settings_dict sh) ''ALERT_BPS'' ''200'') = Inr a
                 \<longrightarrow> s = dict_get (settings_dict sh) ''COOLDOWN_MIN'' ''10''"
      using load_settings_cooldown_rejected [OF rej] by blast
    have "main (w'\<lparr>setting_ws := sh\<rparr>) st'
            = (st'\<lparr>log_ws := ensure_headers (log_ws st')\<rparr>, Inl (ValueError s))" for w' st'
      by (simp add: main_settings_only l)
    with a py_float_raises [OF rej] show ?thesis
      by blast
  qed
  from w d r main_without_cooldown [OF w] show ?thesis
    by blast
qed

theorem cooldown_not_applied_witness:
  "main (demo_world\<lparr>setting_ws := setting_ws demo_world\<rparr>) empty_state
     = main (demo_world\<lparr>setting_ws := cooldown_sheet ''45.5''\<rparr>) empty_state
   \<and> settings_dict (setting_ws demo_world) ''COOLDOWN_MIN'' = None
   \<and> py_float (dict_get (settings_dict (cooldown_sheet ''5 min'')) ''COOLDOWN_MIN'' ''10'')
       = Inl (ValueError ''5 min'')
   \<and> main (no_rate_world\<lparr>setting_ws := cooldown_sheet ''5 min''\<rparr>) empty_state
       = (\<lparr>log_ws = [header_row], telegram = []\<rparr>, Inl (ValueError ''5 min''))
   \<and> main (demo_world\<lparr>setting_ws := cooldown_sheet ''5 min''\<rparr>) empty_state
       = (\<lparr>log_ws = [header_row], telegram = []\<rparr>, Inl (ValueError ''5 min''))"
proof -
  have same: "\<forall>k. k \<noteq> ''COOLDOWN_MIN'' \<longrightarrow>
      settings_dict (setting_ws demo_world) k = settings_dict (cooldown_sheet ''45.5'') k"
    by (simp add: cooldown_sheet_dict)
  have none: "settings_dict (setting_ws demo_world) ''COOLDOWN_MIN'' = None"
    by (simp add: demo_world_def settings_dict_def put_row_def strip_def is_space_def)
  have p1: "py_float (dict_get (settings_dict (setting_ws demo_world)) ''COOLDOWN_MIN'' ''10'')
      = Inr (Fin 10)"
    by (simp add: none dict_get_def float_defs)
  have p2: "py_float (dict_get (settings_dict (cooldown_sheet ''45.5'')) ''COOLDOWN_MIN'' ''10'')
      = Inr (Fin 45.5)"
    by (simp add: cooldown_sheet_value float_defs)
  have v: "dict_get (settings_dict (cooldown_sheet ''5 min'')) ''COOLDOWN_MIN'' ''10'' = ''5 min''"
    by (simp add: cooldown_sheet_value strip_def is_space_def)
  have rej: "py_float (dict_get (settings_dict (cooldown_sheet ''5 min'')) ''COOLDOWN_MIN'' ''10'')
      = Inl (ValueError ''5 min'')"
    unfolding v by (simp add: float_defs)
  note th = cooldown_not_applied [OF same p1 p2, of demo_world empty_state]
  have eq: "main (demo_world\<lparr>setting_ws := setting_ws demo_world\<rparr>) empty_state
     = main (demo_world\<lparr>setting_ws := cooldown_sheet ''45.5''\<rparr>) empty_state"
    using th by blast
  from th rej obtain s where
    m: "\<forall>w' st'. main (w'\<lparr>setting_ws := cooldown_sheet ''5 min''\<rparr>) st'
          = (st'\<lparr>log_ws := ensure_headers (log_ws st')\<rparr>, Inl (ValueError s))"
    and a: "\<forall>a. py_float (dict_get (settings_dict (cooldown_sheet ''5 min'')) ''ALERT_BPS'' ''200'')
              = Inr a \<longrightarrow> s = dict_get (settings_dict (cooldown_sheet ''5 min'')) ''COOLDOWN_MIN'' ''10''"
    by blast
  have s: "s = ''5 min''"
    using a cooldown_sheet_alert [of "''5 min''"] v by simp
  show ?thesis
    using eq none rej m by (simp add: s empty_state_def ensure_headers_def)
qed

subsection \<open>The header row\<close>

lemma coin_step_no_header:
  "header_row \<notin> set (fst (coin_step w ts thr fx ([], []) c))"
  by (cases fx)
     (auto simp: coin_step_def try_coin_def Let_def header_row_def data_row_def err_row_def
           split: sum.splits prod.splits)

lemma for_coins_no_header: "header_row \<notin> set (fst (for_coins w ts thr fx coins))"
  by (simp add: for_coins_concat coin_step_no_header)

lemma main_log:
  "\<exists>rows. log_ws (fst (main w st)) = ensure_headers (log_ws st) @ rows
          \<and> header_row \<notin> set rows"
proof (cases "load_settings (setting_ws w)")
  case (Inl e)
  then show ?thesis
    by (simp add: main_settings_fail)
next
  case (Inr s)
  show ?thesis
  proof (cases "fx_rates w")
    case (Inl e)
    then show ?thesis
      by (simp add: main_fx_fail [OF Inr])
  next
    case fx: (Inr fx)
    obtain a c coins token chat_id where s: "s = (a, c, coins, token, chat_id)"
      by (cases s)
    show ?thesis
      using main_ok [OF Inr [unfolded s] fx, of st]
      by (simp add: notify_log_ws for_coins_no_header)
  qed
qed

lemma ensure_headers_count:
  "count_list (ensure_headers values) header_row =
     (if values = [] then 1 else count_list values header_row)"
  by (simp add: ensure_headers_def)

lemma main_header_count:
  "count_list (log_ws (fst (main w st))) header_row =
     (if log_ws st = [] then 1 else count_list (log_ws st) header_row)"
proof -
  obtain rows where r: "log_ws (fst (main w st)) = ensure_headers (log_ws st) @ rows"
    and n: "header_row \<notin> set rows"
    using main_log by blast
  have "count_list rows header_row = 0"
    using n by (simp add: count_list_0_iff)
  then show ?thesis
    by (simp add: r ensure_headers_count)
qed

lemma main_log_nonempty: "log_ws (fst (main w st)) \<noteq> []"
proof -
  obtain rows where "log_ws (fst (main w st)) = ensure_headers (log_ws st) @ rows"
    using main_log by blast
  then show ?thesis
    by (simp add: ensure_headers_def)
qed

lemma main_log_hd:
  "hd (log_ws (fst (main w st))) = (if log_ws st = [] then header_row else hd (log_ws st))"
proof -
  obtain rows where "log_ws (fst (main w st)) = ensure_headers (log_ws st) @ rows"
    using main_log by blast
  then show ?thesis
    by (simp add: ensure_headers_def)
qed

lemma run_cycles_nonempty:
  "log_ws st \<noteq> [] \<Longrightarrow>
   count_list (log_ws (run_cycles ws st)) header_row = count_list (log_ws st) header_row
   \<and> hd (log_ws (run_cycles ws st)) = hd (log_ws st)
   \<and> log_ws (run_cycles ws st) \<noteq> []"
proof (induction ws arbitrary: st)
  case Nil
  then show ?case by (simp add: run_cycles_def)
next
  case (Cons w ws)
  have "run_cycles (w # ws) st = run_cycles ws (fst (main w st))"
    by (simp add: run_cycles_def)
  with Cons.IH [OF main_log_nonempty [of w st]] Cons.prems show ?case
    by (simp add: main_header_count main_log_hd)
qed

lemma run_cycles_empty:
  assumes "log_ws st = []" and "ws \<noteq> []"
  shows "count_list (log_ws (run_cycles ws st)) header_row = 1
       \<and> hd (log_ws (run_cycles ws st)) = header_row"
proof -
  obtain w ws' where ws: "ws = w # ws'"
    using assms(2) by (cases ws) auto
  have "run_cycles ws st = run_cycles ws' (fst (main w st))"
    by (simp add: ws run_cycles_def)
  with run_cycles_nonempty [OF main_log_nonempty [of w st], of ws'] assms(1) show ?thesis
    by (simp add: main_header_count main_log_hd)
qed

text \<open>
  C9. \<open>ensure_headers\<close> appends the header row exactly when the log tab is empty, and
  the header row is the eleven column names Timestamp, Side, Coin, Luno(MYR),
  KuCoin(USDT), USD/MYR, USD/THB, MYR/THB, Luno(USD), Spread(bps), Error. Every run
  of \<open>main\<close> leaves the log tab as \<open>ensure_headers\<close> made it, followed by rows none of
  which is the header; this holds also when the rate fetches fail, since the header
  check runs before them. So over any number of cycles the header is inserted once:
  from an empty tab, after one cycle or more the tab holds the header exactly once,
  as its first row; a tab that is not empty never gets another header.
\<close>

theorem header_once:
  "ensure_headers values = (if values = [] then [header_row] else values)
   \<and> header_row = map S [''Timestamp'', ''Side'', ''Coin'', ''Luno(MYR)'', ''KuCoin(USDT)'',
        ''USD/MYR'', ''USD/THB'', ''MYR/THB'', ''Luno(USD)'', ''Spread(bps)'', ''Error'']
   \<and> length header_row = 11
   \<and> (\<exists>rows. log_ws (fst (main w st)) = ensure_headers (log_ws st) @ rows
              \<and> header_row \<notin> set rows)
   \<and> (\<forall>e. fx_rates w = Inl e \<longrightarrow> log_ws (fst (main w st)) = ensure_headers (log_ws st))
   \<and> (log_ws st = [] \<and> ws \<noteq> [] \<longrightarrow>
        count_list (log_ws (run_cycles ws st)) header_row = 1
        \<and> hd (log_ws (run_cycles ws st)) = header_row)
   \<and> (log_ws st \<noteq> [] \<longrightarrow>
        count_list (log_ws (run_cycles ws st)) header_row = count_list (log_ws st) header_row)"
proof -
  have fx: "log_ws (fst (main w st)) = ensure_headers (log_ws st)" if "fx_rates w = Inl e" for e
  proof (cases "load_settings (setting_ws w)")
    case (Inl e')
    then show ?thesis by (simp add: main_settings_fail)
  next
    case (Inr s)
    then show ?thesis by (simp add: main_fx_fail [OF Inr that])
  qed
  show ?thesis
    using main_log [of w st] fx run_cycles_empty [of st ws] run_cycles_nonempty [of st ws]
    by (simp add: ensure_headers_def header_row_def)
qed

theorem header_once_witness:
  "count_list (log_ws (run_cycles [demo_world, no_rate_world, demo_world] empty_state))
     header_row = 1
   \<and> hd (log_ws (run_cycles [demo_world, no_rate_world, demo_world] empty_state)) = header_row
   \<and> log_ws (fst (main no_rate_world empty_state)) = [header_row]
   \<and> count_list (log_ws (run_cycles [demo_world] \<lparr>log_ws = [[S ''x'']], telegram = []\<rparr>))
        header_row = 0"
proof -
  have f: "fx_rates no_rate_world = Inl (RuntimeError ''XE parse failed for USD->THB'')"
    by (rule fx_rates_fail) (simp add: no_rate_parse)
  show ?thesis
    using header_once [of "[]" no_rate_world empty_state
        "[demo_world, no_rate_world, demo_world]"]
      header_once [of "[]" demo_world "\<lparr>log_ws = [[S ''x'']], telegram = []\<rparr>" "[demo_world]"]
      f
    by (simp add: empty_state_def ensure_headers_def header_row_def)
qed

subsection \<open>No credentials, no message\<close>

lemma no_token_settings:
  "load_settings (setting_ws no_token_world) =
     Inr (Fin 200, Fin 10, [''BTC'', ''LTC'', ''XRP''], '''', ''42'')"
  by (simp add: no_token_world_def load_settings_def settings_dict_def put_row_def dict_get_def
        parse_coins_def upper_def upper_char_def float_defs)

text \<open>
  C10. When the bot token or the chat id is missing from the settings or is the empty
  string, a run of \<open>main\<close> sends no message, whatever the alerts of the cycle. When
  the settings and the rates were obtained the run returns normally and the log tab
  gets the rows of the cycle, the same rows as in a run whose settings differ in the
  two credentials only.
\<close>

theorem no_credentials_no_message:
  assumes "settings_dict (setting_ws w) ''TELEGRAM_BOT_TOKEN'' = None
         \<or> settings_dict (setting_ws w) ''TELEGRAM_BOT_TOKEN'' = Some ''''
         \<or> settings_dict (setting_ws w) ''TELEGRAM_CHAT_ID'' = None
         \<or> settings_dict (setting_ws w) ''TELEGRAM_CHAT_ID'' = Some ''''"
  shows "telegram (fst (main w st)) = telegram st
       \<and> (\<forall>a c coins tok chat fx.
             load_settings (setting_ws w) = Inr (a, c, coins, tok, chat) \<and> fx_rates w = Inr fx
             \<longrightarrow> snd (main w st) = Inr ()
                \<and> log_ws (fst (main w st)) =
                    ensure_headers (log_ws st) @ fst (for_coins w (now w) a fx coins))
       \<and> (\<forall>sh a c coins tok chat tok' chat'.
             load_settings (setting_ws w) = Inr (a, c, coins, tok, chat)
             \<and> load_settings sh = Inr (a, c, coins, tok', chat')
             \<longrightarrow> log_ws (fst (main w st)) = log_ws (fst (main (w\<lparr>setting_ws := sh\<rparr>) st)))"
proof -
  have creds: "tok = [] \<or> chat = []"
    if "load_settings (setting_ws w) = Inr (a, c, coins, tok, chat)" for a c coins tok chat
    using that assms
    by (auto simp: load_settings_def Let_def dict_get_def split: sum.splits)
  have tg: "telegram (fst (main w st)) = telegram st"
  proof (cases "load_settings (setting_ws w)")
    case (Inl e)
    then show ?thesis by (simp add: main_settings_fail)
  next
    case (Inr s)
    obtain a c coins tok chat where s: "s = (a, c, coins, tok, chat)"
      by (cases s)
    show ?thesis
    proof (cases "fx_rates w")
      case (Inl e)
      then show ?thesis by (simp add: main_fx_fail [OF Inr])
    next
      case fx: (Inr fx)
      show ?thesis
        using creds [OF Inr [unfolded s]] main_ok [OF Inr [unfolded s] fx, of st]
        by (auto simp: notify_telegram)
    qed
  qed
  have rows: "snd (main w st) = Inr ()
       \<and> log_ws (fst (main w st)) =
           ensure_headers (log_ws st) @ fst (for_coins w (now w) a fx coins)"
    if "load_settings (setting_ws w) = Inr (a, c, coins, tok, chat)" "fx_rates w = Inr fx"
    for a c coins tok chat fx
    using main_ok [OF that, of st] by (simp add: notify_log_ws)
  have cmp: "log_ws (fst (main w st)) = log_ws (fst (main (w\<lparr>setting_ws := sh\<rparr>) st))"
    if "load_settings (setting_ws w) = Inr (a, c, coins, tok, chat)"
       "load_settings sh = Inr (a, c, coins, tok', chat')"
    for sh a c coins tok chat tok' chat'
  proof -
    have "main w st = main (w\<lparr>setting_ws := setting_ws w\<rparr>) st"
      by simp
    then show ?thesis
      by (simp only: main_settings_only that)
         (simp add: notify_log_ws split: sum.splits)
  qed
  from tg rows cmp show ?thesis
    by blast
qed

theorem no_credentials_no_message_witness:
  "settings_dict (setting_ws no_token_world) ''TELEGRAM_BOT_TOKEN'' = None
   \<and> snd (for_coins no_token_world (now no_token_world) (Fin 200) (4, 36, 9)
             [''BTC'', ''LTC'', ''XRP''])
       = [(''BTC'', ''Bid'', 200, 101, 99), (''BTC'', ''Ask'', 400, 102, 98)]
   \<and> telegram (fst (main no_token_world empty_state)) = []
   \<and> snd (main no_token_world empty_state) = Inr ()
   \<and> length (log_ws (fst (main no_token_world empty_state))) = 6
   \<and> log_ws (fst (main no_token_world empty_state)) = log_ws (fst (main demo_world empty_state))
   \<and> length (telegram (fst (main demo_world empty_state))) = 2"
proof -
  have none: "settings_dict (setting_ws no_token_world) ''TELEGRAM_BOT_TOKEN'' = None"
    by (simp add: no_token_world_def settings_dict_def put_row_def strip_def is_space_def)
  have fx: "fx_rates no_token_world = Inr (4, 36, 9)"
    by (simp add: no_token_world_def fx_rates_settings demo_fx)
  have fc: "for_coins no_token_world ts thr f cs = for_coins demo_world ts thr f cs"
    for ts thr f cs
    by (simp add: no_token_world_def for_coins_settings)
  have al: "snd (for_coins demo_world ts (Fin 200) (4, 36, 9) [''BTC'', ''LTC'', ''XRP''])
      = [(''BTC'', ''Bid'', 200, 101, 99), (''BTC'', ''Ask'', 400, 102, 98)]" for ts
    by (simp add: for_coins_alerts demo_rows row_alert_def)
  have demo: "no_token_world\<lparr>setting_ws := setting_ws demo_world\<rparr> = demo_world"
    by (simp add: no_token_world_def)
  have dm: "length (telegram (fst (main demo_world empty_state))) = 2"
    using main_ok [OF demo_settings demo_fx, of empty_state]
    by (simp add: notify_telegram al empty_state_def)
  note th = no_credentials_no_message [of no_token_world empty_state, OF disjI1, OF none]
  have t1: "telegram (fst (main no_token_world empty_state)) = []"
    using th by (simp add: empty_state_def)
  have t2: "snd (main no_token_world empty_state) = Inr ()
     \<and> log_ws (fst (main no_token_world empty_state)) =
         ensure_headers (log_ws empty_state)
         @ fst (for_coins no_token_world (now no_token_world) (Fin 200) (4, 36, 9)
                  [''BTC'', ''LTC'', ''XRP''])"
    using th no_token_settings fx by blast
  then have t2': "length (log_ws (fst (main no_token_world empty_state))) = 6"
    by (simp add: fc demo_rows empty_state_def ensure_headers_def)
  have t3: "log_ws (fst (main no_token_world empty_state))
      = log_ws (fst (main (no_token_world\<lparr>setting_ws := setting_ws demo_world\<rparr>) empty_state))"
    using th no_token_settings demo_settings by blast
  show ?thesis
    using none t1 t2 t2' t3 dm by (simp add: fc al demo)
qed

subsection \<open>The spread\<close>

lemma spread_bps_value:
  "(x + y) / 2 \<noteq> 0 \<Longrightarrow> spread_bps x y = Inr (10000 * ((x - y) / ((x + y) / 2)))"
  by (simp add: spread_bps_def py_div_def)

text \<open>
  C6. For two strictly positive prices \<open>p\<close> and \<open>q\<close> the spread expression of the
  source returns (the divisor is not zero), its value is
  \<open>10000 * (p - q) / ((p + q) / 2)\<close>, and with the prices swapped it returns the
  same value with the opposite sign: the sign flips and the magnitude stays.
\<close>

theorem spread_bps_swap:
  assumes "0 < p" and "0 < q"
  shows "\<exists>v. spread_bps p q = Inr v \<and> spread_bps q p = Inr (- v)
           \<and> v = 10000 * (p - q) / ((p + q) / 2)"
proof -
  have nz: "(p + q) / 2 \<noteq> 0" "(q + p) / 2 \<noteq> 0"
    using assms by simp_all
  have "(q - p) / ((q + p) / 2) = - ((p - q) / ((p + q) / 2))"
    by (simp add: add.commute minus_divide_left)
  then have "spread_bps q p = Inr (- (10000 * ((p - q) / ((p + q) / 2))))"
    using spread_bps_value [OF nz(2)] by simp
  moreover have "spread_bps p q = Inr (10000 * ((p - q) / ((p + q) / 2)))"
    using spread_bps_value [OF nz(1)] .
  ultimately show ?thesis
    by simp
qed

theorem spread_bps_swap_witness:
  "spread_bps 3 1 = Inr 10000 \<and> spread_bps 1 3 = Inr (- 10000)"
proof -
  have "\<exists>v. spread_bps 3 1 = Inr v \<and> spread_bps 1 3 = Inr (- v)
          \<and> v = 10000 * (3 - 1) / ((3 + 1) / 2)"
    using spread_bps_swap [of 3 1] by simp
  then show ?thesis
    by auto
qed

end
